theory Spec2Isabelle
  imports Complex_Main "HOL-Library.Multiset" "HOL-Library.Word"
begin

section \<open>Data model\<close>

text \<open>
  A pandas \<open>Timestamp\<close>, by its calendar fields. \<open>tod\<close> is the time of day in
  nanoseconds; the month-start offset and \<open>strftime('%d/%m/%Y')\<close> never look at it.
  The bounds of the type (years 1677 to 2262) are not modelled.
\<close>

record timestamp =
  year :: nat
  month :: nat
  day :: nat
  tod :: nat

text \<open>
  A pandas \<open>Series\<close> with a datetime index, as \<open>prepare_time_series\<close> returns it and
  \<open>generate_forecast\<close> takes it: the (index, value) pairs in order. These two functions
  and the export only move the values and never compute with them; the arithmetic of
  \<open>calculate_metrics\<close> has its own model of numpy's numbers below.
\<close>

type_synonym series = "(timestamp \<times> rat) list"

section \<open>Forecast Engine: \<open>generate_forecast\<close>\<close>

text \<open>The keyword arguments \<open>generate_forecast\<close> passes to \<open>ExponentialSmoothing\<close>.\<close>

record es_config =
  trend :: "string option"
  seasonal :: "string option"
  seasonal_periods :: "nat option"
  damped_trend :: bool

text \<open>
  statsmodels is a black box: building, fitting and predicting each either raise (\<open>Inl\<close>,
  with \<open>str(e)\<close>) or return. \<open>'m\<close> is the model object, \<open>'f\<close> the fitted one.
\<close>

record ('m, 'f) statsmodels =
  ExponentialSmoothing :: "series \<Rightarrow> es_config \<Rightarrow> string + 'm"
  fit :: "'m \<Rightarrow> string + 'f"
  forecast :: "'f \<Rightarrow> nat \<Rightarrow> string + rat list"

text \<open>The \<open>if n_obs >= 24 / elif n_obs >= 12 / else\<close> of lines 977 to 1001.\<close>

definition model_config :: "nat \<Rightarrow> es_config" where
  "model_config n_obs =
     (if n_obs \<ge> 24 then
        \<lparr>trend = Some ''add'', seasonal = Some ''add'', seasonal_periods = Some 12,
         damped_trend = True\<rparr>
      else if n_obs \<ge> 12 then
        \<lparr>trend = Some ''add'', seasonal = None, seasonal_periods = None,
         damped_trend = True\<rparr>
      else
        \<lparr>trend = Some ''add'', seasonal = None, seasonal_periods = None,
         damped_trend = False\<rparr>)"

definition is_leap :: "nat \<Rightarrow> bool" where
  "is_leap y = (y mod 4 = 0 \<and> (y mod 400 = 0 \<or> y mod 100 \<noteq> 0))"

definition days_in_month :: "nat \<Rightarrow> nat \<Rightarrow> nat" where
  "days_in_month y m =
     (if m = 2 then (if is_leap y then 29 else 28)
      else if m = 4 \<or> m = 6 \<or> m = 9 \<or> m = 11 then 30 else 31)"

text \<open>
  \<open>last_date + pd.DateOffset(months=1)\<close>: the same day of the next month, clipped to that
  month's length; the time of day stays.
\<close>

definition add_one_month :: "timestamp \<Rightarrow> timestamp" where
  "add_one_month t =
     (let y = (if month t = 12 then year t + 1 else year t);
          m = (if month t = 12 then 1 else month t + 1)
      in t\<lparr>year := y, month := m, day := min (day t) (days_in_month y m)\<rparr>)"

text \<open>The \<open>MS\<close> (month start) offset applied once: the first day of the next month.\<close>

definition next_month_start :: "timestamp \<Rightarrow> timestamp" where
  "next_month_start t =
     (if month t = 12 then t\<lparr>year := year t + 1, month := 1, day := 1\<rparr>
      else t\<lparr>month := month t + 1, day := 1\<rparr>)"

text \<open>
  \<open>pd.date_range(start=s, periods=n, freq='MS')\<close>: a start that is not on a month start
  is rolled forward to the next one, then the offset is applied \<open>n - 1\<close> times.
\<close>

definition rollforward :: "timestamp \<Rightarrow> timestamp" where
  "rollforward t = (if day t = 1 then t else next_month_start t)"

fun month_starts :: "timestamp \<Rightarrow> nat \<Rightarrow> timestamp list" where
  "month_starts t 0 = []"
| "month_starts t (Suc n) = t # month_starts (next_month_start t) n"

definition date_range_MS :: "timestamp \<Rightarrow> nat \<Rightarrow> timestamp list" where
  "date_range_MS start periods = month_starts (rollforward start) periods"

text \<open>The \<open>except Exception as e\<close> branch of \<open>generate_forecast\<close>.\<close>

definition forecasting_error ::
  "string \<Rightarrow> series option \<times> 'f option \<times> string option" where
  "forecasting_error e = (None, None, Some (''Forecasting error: '' @ e))"

text \<open>
  \<open>generate_forecast(time_series, forecast_periods)\<close>, the whole body inside its \<open>try\<close>.
  \<open>time_series.index[-1]\<close> raises on an empty series, and assigning an index of another
  length than the forecast raises; both land in the \<open>except\<close> like any library error
  (the two messages stand for pandas' own).
\<close>

definition generate_forecast ::
  "('m, 'f) statsmodels \<Rightarrow> series \<Rightarrow> nat \<Rightarrow> series option \<times> 'f option \<times> string option" where
  "generate_forecast sm time_series forecast_periods =
     (let n_obs = length time_series in
      case ExponentialSmoothing sm time_series (model_config n_obs) of
        Inl e \<Rightarrow> forecasting_error e
      | Inr model \<Rightarrow>
          (case fit sm model of
             Inl e \<Rightarrow> forecasting_error e
           | Inr fitted_model \<Rightarrow>
               (case forecast sm fitted_model forecast_periods of
                  Inl e \<Rightarrow> forecasting_error e
                | Inr vals \<Rightarrow>
                    (if time_series = [] then
                       forecasting_error ''index -1 is out of bounds for axis 0 with size 0''
                     else
                       let last_date = fst (last time_series);
                           forecast_index =
                             date_range_MS (add_one_month last_date) forecast_periods
                       in if length vals \<noteq> length forecast_index then
                            forecasting_error ''Length mismatch''
                          else (Some (zip forecast_index vals), Some fitted_model, None)))))"

text \<open>
  A stand-in for the solver, to run \<open>generate_forecast\<close> on concrete input: the model is
  the series, fitting does nothing, and every forecast value repeats the last observation.
  The forecast dates do not depend on it.
\<close>

definition naive_sm :: "(series, series) statsmodels" where
  "naive_sm =
     \<lparr>ExponentialSmoothing = (\<lambda>ts cfg. Inr ts),
      fit = (\<lambda>m. Inr m),
      forecast = (\<lambda>f h. if f = [] then Inl ''empty series'' else Inr (replicate h (snd (last f))))\<rparr>"

text \<open>
  A solver that records what it is given: its model, fitted or not, is the configuration
  it was built with, and every forecast value is 0.
\<close>

definition recording_sm :: "(es_config, es_config) statsmodels" where
  "recording_sm =
     \<lparr>ExponentialSmoothing = (\<lambda>ts cfg. Inr cfg),
      fit = (\<lambda>m. Inr m),
      forecast = (\<lambda>f h. Inr (replicate h 0))\<rparr>"

text \<open>A solver whose optimiser fails, as statsmodels does on degenerate input.\<close>

definition failing_fit_sm :: "(series, series) statsmodels" where
  "failing_fit_sm = naive_sm\<lparr>fit := (\<lambda>m. Inl ''optimizer did not converge'')\<rparr>"

section \<open>Tables and the pandas interface\<close>

text \<open>
  A cell of a loaded sheet: missing (\<open>NaN\<close>, \<open>None\<close>, \<open>NaT\<close>), a number, a string or a
  timestamp. A column has its label (a string, as the docstrings say), its pandas dtype
  class (what \<open>is_datetime64_any_dtype\<close> and \<open>is_numeric_dtype\<close> answer) and its cells.
  A DataFrame is its columns in order; \<open>len(df)\<close> is the number of rows.
\<close>

datatype cell = NA | Num rat | Str string | Ts timestamp

datatype dtype = Datetime64 | Numeric | Object

record column =
  name :: string
  dtype :: dtype
  cells :: "cell list"

type_synonym dataframe = "column list"

definition len_df :: "dataframe \<Rightarrow> nat" where
  "len_df df = (case df of [] \<Rightarrow> 0 | c # _ \<Rightarrow> length (cells c))"

text \<open>\<open>df[col]\<close> for a label: the column, or nothing (a \<open>KeyError\<close>).\<close>

definition get_col :: "dataframe \<Rightarrow> string \<Rightarrow> column option" where
  "get_col df col = find (\<lambda>c. name c = col) df"

text \<open>
  The pandas conversions the code calls, taken as parameters:
  \<^item> \<open>strptime_ok fmt val\<close>: \<open>pd.to_datetime(str(val), format=fmt)\<close> does not raise;
  \<^item> \<open>to_datetime fmt col\<close>: \<open>pd.to_datetime(col, format=fmt)\<close>, which raises (\<open>Inl\<close>) or
    returns one timestamp or \<open>NaT\<close> (\<open>None\<close>) per cell; \<open>fmt = None\<close> is the call without
    a format;
  \<^item> \<open>to_datetime_coerce fmt col\<close>: the same with \<open>errors='coerce'\<close>, which returns \<open>NaT\<close>
    where it cannot parse;
  \<^item> \<open>to_numeric val\<close>: \<open>pd.to_numeric\<close> on one cell, \<open>None\<close> where it cannot parse;
    with \<open>errors='coerce'\<close> that is \<open>NaN\<close>, with \<open>errors='raise'\<close> an exception unless
    the cell is missing;
  \<^item> \<open>tie_order keys i\<close>: the rank that the sorting algorithm behind \<open>sort_values\<close>
    (numpy's quicksort, which is not stable) gives to row \<open>i\<close> among the rows of equal
    key; it may depend on the whole key column \<open>keys\<close>.
\<close>

record pandas =
  strptime_ok :: "string \<Rightarrow> cell \<Rightarrow> bool"
  to_datetime :: "string option \<Rightarrow> cell list \<Rightarrow> string + timestamp option list"
  to_datetime_coerce :: "string option \<Rightarrow> cell list \<Rightarrow> timestamp option list"
  to_numeric :: "cell \<Rightarrow> rat option"
  tie_order :: "int list \<Rightarrow> nat \<Rightarrow> nat"

definition notna :: "cell \<Rightarrow> bool" where
  "notna c = (c \<noteq> NA)"

section \<open>Column Classifier: \<open>infer_date_format\<close> and \<open>detect_date_column\<close>\<close>

definition common_formats :: "string list" where
  "common_formats =
     [''%Y-%m-%d'', ''%d/%m/%Y'', ''%m/%d/%Y'', ''%d-%m-%Y'', ''%Y/%m/%d'', ''%d.%m.%Y'',
      ''%Y-%m-%d %H:%M:%S'', ''%d/%m/%Y %H:%M:%S'', ''%Y-%m'', ''%m/%Y'', ''%b %Y'',
      ''%B %Y'', ''%d %b %Y'', ''%d %B %Y'']"

text \<open>
  \<open>infer_date_format(series)\<close>: the first of the common formats under which every one of
  the first five non-missing values parses.
\<close>

definition infer_date_format :: "pandas \<Rightarrow> cell list \<Rightarrow> string option" where
  "infer_date_format pd series =
     (let sample = take 5 (filter notna series)
      in if length sample = 0 then None
         else find (\<lambda>fmt. list_all (strptime_ok pd fmt) sample) common_formats)"

definition date_keywords :: "string list" where
  "date_keywords =
     [''date'', ''month'', ''period'', ''time'', ''quarter'', ''year'', ''day'', ''week'']"

text \<open>\<open>col.lower()\<close> on the ASCII letters, and Python's substring test \<open>kw in s\<close>.\<close>

definition lower_char :: "char \<Rightarrow> char" where
  "lower_char c =
     (case map_of (zip ''ABCDEFGHIJKLMNOPQRSTUVWXYZ'' ''abcdefghijklmnopqrstuvwxyz'') c of
        Some l \<Rightarrow> l
      | None \<Rightarrow> c)"

definition lower :: "string \<Rightarrow> string" where
  "lower s = map lower_char s"

fun str_in :: "string \<Rightarrow> string \<Rightarrow> bool" where
  "str_in kw [] = (kw = [])"
| "str_in kw (c # cs) = (take (length kw) (c # cs) = kw \<or> str_in kw cs)"

definition is_keyword_match :: "string \<Rightarrow> bool" where
  "is_keyword_match col = list_ex (\<lambda>keyword. str_in keyword (lower col)) date_keywords"

text \<open>
  \<open>parsed.notna().sum()\<close> of lines 790 to 800: the column is parsed under the inferred
  format when there is one, by generic parsing otherwise, failures coerced to \<open>NaT\<close>.
\<close>

definition parsed_count :: "pandas \<Rightarrow> cell list \<Rightarrow> nat" where
  "parsed_count pd series =
     (let date_format = infer_date_format pd series;
          parsed = (if date_format \<noteq> None then to_datetime_coerce pd date_format series
                    else to_datetime_coerce pd None series)
      in length (filter (\<lambda>p. p \<noteq> None) parsed))"

text \<open>\<open>sample.between(1900, 2100).all()\<close> on the first ten non-missing values.\<close>

definition looks_like_years :: "cell list \<Rightarrow> bool" where
  "looks_like_years series =
     list_all (\<lambda>c. case c of Num r \<Rightarrow> 1900 \<le> r \<and> r \<le> 2100 | _ \<Rightarrow> False)
       (take 10 (filter notna series))"

text \<open>
  The loop of \<open>detect_date_column\<close> over \<open>df.columns\<close>, with its two lists. \<open>n\<close> is
  \<open>len(df)\<close>. \<open>valid_ratio > 0.8\<close> compares the quotient of two row counts with 0.8: it
  holds exactly when five times the parsed count exceeds four times the row count (the
  float quotient of a ratio equal to 4/5 is the float 0.8 itself, and no row is \<open>nan\<close>
  over zero rows).
\<close>

fun detect_loop ::
  "pandas \<Rightarrow> nat \<Rightarrow> column list \<Rightarrow> string list \<times> string list \<Rightarrow> string list \<times> string list"
where
  "detect_loop pd n [] acc = acc"
| "detect_loop pd n (col # rest) (keyword_matches, date_columns) =
     (if dtype col = Datetime64 then
        (if is_keyword_match (name col)
         then detect_loop pd n rest (keyword_matches @ [name col], date_columns)
         else detect_loop pd n rest (keyword_matches, date_columns @ [name col]))
      else if dtype col = Numeric then
        (if looks_like_years (cells col)
         then detect_loop pd n rest (keyword_matches, date_columns)
         else detect_loop pd n rest (keyword_matches, date_columns))
      else if 5 * parsed_count pd (cells col) > 4 * n then
        (if is_keyword_match (name col)
         then detect_loop pd n rest (keyword_matches @ [name col], date_columns)
         else detect_loop pd n rest (keyword_matches, date_columns @ [name col]))
      else detect_loop pd n rest (keyword_matches, date_columns))"

definition all_date_cols :: "pandas \<Rightarrow> dataframe \<Rightarrow> string list" where
  "all_date_cols pd df =
     (case detect_loop pd (len_df df) df ([], []) of
        (keyword_matches, date_columns) \<Rightarrow> keyword_matches @ date_columns)"

definition detect_date_column :: "pandas \<Rightarrow> dataframe \<Rightarrow> string option" where
  "detect_date_column pd df =
     (case all_date_cols pd df of [] \<Rightarrow> None | c # _ \<Rightarrow> Some c)"

text \<open>
  What the loop accepts, stated once for one column: it is datetime-typed, or it is
  neither datetime nor numeric and more than 80% of the table's rows parse as dates.
\<close>

definition date_qualifying :: "pandas \<Rightarrow> nat \<Rightarrow> column \<Rightarrow> bool" where
  "date_qualifying pd n col =
     (dtype col = Datetime64 \<or> (dtype col = Object \<and> 4 * n < 5 * parsed_count pd (cells col)))"

section \<open>Series Builder: \<open>validate_columns\<close> and \<open>prepare_time_series\<close>\<close>

definition quoted :: "string \<Rightarrow> string" where
  "quoted s = CHR 0x27 # s @ [CHR 0x27]"

text \<open>\<open>pd.to_numeric(col, errors='raise')\<close> raises: some present cell does not parse.\<close>

definition to_numeric_raises :: "pandas \<Rightarrow> cell list \<Rightarrow> bool" where
  "to_numeric_raises pd series = list_ex (\<lambda>c. notna c \<and> to_numeric pd c = None) series"

definition validate_columns ::
  "pandas \<Rightarrow> dataframe \<Rightarrow> string \<Rightarrow> string \<Rightarrow> bool \<times> string option" where
  "validate_columns pd df date_col value_col =
     (case (get_col df date_col, get_col df value_col) of
        (Some dc, Some vc) \<Rightarrow>
          (case to_datetime pd None (cells dc) of
             Inl e \<Rightarrow>
               (False, Some (quoted date_col @
                  '' cannot be converted to dates. Please select a valid date column.''))
           | Inr parsed \<Rightarrow>
               if dtype vc \<noteq> Numeric \<and> to_numeric_raises pd (cells vc) then
                 (False, Some (quoted value_col @
                    '' is not numeric. Please select a column with numerical values.''))
               else if len_df df < 6 then
                 (False, Some ''At least 6 data points are required for forecasting.'')
               else (True, None))
      | _ \<Rightarrow> (False, Some ''Selected columns not found in the data.''))"

text \<open>
  Chronological order of timestamps, as a number that grows with (year, month, day, time
  of day): the key \<open>sort_values\<close> sorts by. A day has 86400000000000 nanoseconds.
\<close>

definition ts_ord :: "timestamp \<Rightarrow> int" where
  "ts_ord t =
     ((int (year t) * 12 + int (month t)) * 32 + int (day t)) * 86400000000000 + int (tod t)"

text \<open>\<open>dropna()\<close> on the two-column frame: a row stays when both entries are present.\<close>

definition dropna :: "(timestamp option \<times> rat option) list \<Rightarrow> series" where
  "dropna rows =
     List.map_filter
       (\<lambda>row. case row of (Some d, Some v) \<Rightarrow> Some (d, v) | _ \<Rightarrow> None) rows"

text \<open>
  \<open>ts_df.sort_values(date_col)\<close>: the rows in ascending order of their date. Rows of
  equal date come in the order of their \<open>tie_order\<close> rank: the rows are numbered, put in
  rank order and then sorted by date with a sort that keeps equal keys in place.
\<close>

definition sort_values :: "pandas \<Rightarrow> series \<Rightarrow> series" where
  "sort_values pd rows =
     (let keys = map (\<lambda>row. ts_ord (fst row)) rows;
          numbered = zip [0..<length rows] rows
      in map snd
           (sort_key (\<lambda>p. ts_ord (fst (snd p)))
              (sort_key (\<lambda>p. tie_order pd keys (fst p)) numbered)))"

text \<open>
  \<open>prepare_time_series(df, date_col, value_col)\<close>. A missing label is a \<open>KeyError\<close>; with
  the same label twice \<open>ts_df[date_col]\<close> is a two-column frame, which \<open>pd.to_datetime\<close>
  refuses; a date that does not parse raises (no \<open>errors='coerce'\<close> here). None of these is
  caught by the function.
\<close>

definition prepare_time_series ::
  "pandas \<Rightarrow> dataframe \<Rightarrow> string \<Rightarrow> string \<Rightarrow> string + series" where
  "prepare_time_series pd df date_col value_col =
     (case (get_col df date_col, get_col df value_col) of
        (Some dc, Some vc) \<Rightarrow>
          if date_col = value_col then
            Inl ''to assemble mappings requires at least that [year, month, day] be specified''
          else
            (let date_format = infer_date_format pd (cells dc) in
             case to_datetime pd date_format (cells dc) of
               Inl e \<Rightarrow> Inl e
             | Inr dates \<Rightarrow>
                 (let vals = map (to_numeric pd) (cells vc);
                      ts_df = dropna (zip dates vals)
                  in Inr (sort_values pd ts_df)))
      | _ \<Rightarrow> Inl ''KeyError'')"

section \<open>Metrics and export: \<open>calculate_metrics\<close> and \<open>create_download_csv\<close>\<close>

text \<open>
  The numbers \<open>calculate_metrics\<close> computes with are numpy's. A series of values has
  dtype int64 or float64 (what \<open>pd.to_numeric\<close> gives; statsmodels forecasts in float64),
  and a scalar taken from it or computed from it is a \<open>numpy.int64\<close> or a
  \<open>numpy.float64\<close>. int64 is the 64-bit word with wrap-around, read as signed. float64
  is a type \<open>'f\<close> whose operations are taken as parameters: subtraction, division and
  multiplication, \<open>.sum()\<close> and \<open>.mean()\<close> of a float64 series, \<open>.mean()\<close> of an int64
  series (a float64), the conversions from int64 and from a Python int, and the tests
  \<open>x == 0\<close> and \<open>np.isfinite(x)\<close>.
\<close>

datatype 'f scalar = I64 "64 word" | F64 'f

datatype 'f num_series = Int64s "64 word list" | Float64s "'f list"

record 'f float64 =
  fsub :: "'f \<Rightarrow> 'f \<Rightarrow> 'f"
  fdiv :: "'f \<Rightarrow> 'f \<Rightarrow> 'f"
  fmul :: "'f \<Rightarrow> 'f \<Rightarrow> 'f"
  fsum :: "'f list \<Rightarrow> 'f"
  fmean :: "'f list \<Rightarrow> 'f"
  mean_int64 :: "64 word list \<Rightarrow> 'f"
  of_int64 :: "64 word \<Rightarrow> 'f"
  of_pyint :: "int \<Rightarrow> 'f"
  is_zero :: "'f \<Rightarrow> bool"
  isfinite :: "'f \<Rightarrow> bool"

text \<open>\<open>len(series)\<close>, \<open>series.sum()\<close>, \<open>series.mean()\<close> and \<open>series.iloc[-1]\<close>.\<close>

definition series_len :: "'f num_series \<Rightarrow> nat" where
  "series_len vs = (case vs of Int64s ws \<Rightarrow> length ws | Float64s fs \<Rightarrow> length fs)"

definition series_sum :: "'f float64 \<Rightarrow> 'f num_series \<Rightarrow> 'f scalar" where
  "series_sum fl vs = (case vs of Int64s ws \<Rightarrow> I64 (sum_list ws) | Float64s fs \<Rightarrow> F64 (fsum fl fs))"

definition series_mean :: "'f float64 \<Rightarrow> 'f num_series \<Rightarrow> 'f scalar" where
  "series_mean fl vs =
     (case vs of Int64s ws \<Rightarrow> F64 (mean_int64 fl ws) | Float64s fs \<Rightarrow> F64 (fmean fl fs))"

definition iloc_last :: "'f num_series \<Rightarrow> string + 'f scalar" where
  "iloc_last vs =
     (case vs of
        Int64s ws \<Rightarrow>
          if ws = [] then Inl ''single positional indexer is out-of-bounds''
          else Inr (I64 (last ws))
      | Float64s fs \<Rightarrow>
          if fs = [] then Inl ''single positional indexer is out-of-bounds''
          else Inr (F64 (last fs)))"

text \<open>
  numpy's scalar arithmetic: two int64 subtract in int64, wrapping; any other pair is
  subtracted in float64; \<open>/\<close> is true division, in float64 whatever the operands; a
  scalar times a Python int stays in its own type.
\<close>

definition to_float64 :: "'f float64 \<Rightarrow> 'f scalar \<Rightarrow> 'f" where
  "to_float64 fl x = (case x of I64 w \<Rightarrow> of_int64 fl w | F64 f \<Rightarrow> f)"

definition np_sub :: "'f float64 \<Rightarrow> 'f scalar \<Rightarrow> 'f scalar \<Rightarrow> 'f scalar" where
  "np_sub fl a b =
     (case (a, b) of
        (I64 x, I64 y) \<Rightarrow> I64 (x - y)
      | _ \<Rightarrow> F64 (fsub fl (to_float64 fl a) (to_float64 fl b)))"

definition np_truediv :: "'f float64 \<Rightarrow> 'f scalar \<Rightarrow> 'f scalar \<Rightarrow> 'f scalar" where
  "np_truediv fl a b = F64 (fdiv fl (to_float64 fl a) (to_float64 fl b))"

definition np_mul_pyint :: "'f float64 \<Rightarrow> 'f scalar \<Rightarrow> int \<Rightarrow> 'f scalar" where
  "np_mul_pyint fl a k =
     (case a of I64 w \<Rightarrow> I64 (w * word_of_int k) | F64 f \<Rightarrow> F64 (fmul fl f (of_pyint fl k)))"

definition scalar_is_zero :: "'f float64 \<Rightarrow> 'f scalar \<Rightarrow> bool" where
  "scalar_is_zero fl x = (case x of I64 w \<Rightarrow> w = 0 | F64 f \<Rightarrow> is_zero fl f)"

record 'f metrics =
  historical_avg :: "'f scalar"
  forecast_avg :: "'f scalar"
  growth_rate :: "'f scalar"
  projected_total :: "'f scalar"
  historical_total :: "'f scalar"
  forecast_periods :: nat

text \<open>
  \<open>calculate_metrics(historical_data, forecast_data)\<close>, on the values of the two series
  (their index plays no part). \<open>.iloc[-1]\<close> raises an \<open>IndexError\<close> on an empty series;
  nothing else in the body raises, a division by zero included (numpy warns and returns
  an infinity or \<open>nan\<close>).
\<close>

definition calculate_metrics ::
  "'f float64 \<Rightarrow> 'f num_series \<Rightarrow> 'f num_series \<Rightarrow> string + 'f metrics" where
  "calculate_metrics fl historical_data forecast_data =
     (case iloc_last historical_data of
        Inl e \<Rightarrow> Inl e
      | Inr last_historical \<Rightarrow>
          (case iloc_last forecast_data of
             Inl e \<Rightarrow> Inl e
           | Inr last_forecast \<Rightarrow>
               Inr \<lparr>historical_avg = series_mean fl historical_data,
                    forecast_avg = series_mean fl forecast_data,
                    growth_rate =
                      np_mul_pyint fl
                        (np_truediv fl (np_sub fl last_forecast last_historical) last_historical)
                        100,
                    projected_total = series_sum fl forecast_data,
                    historical_total = series_sum fl historical_data,
                    forecast_periods = series_len forecast_data\<rparr>))"

text \<open>
  A float64 to run the model with: a finite value is a rational, and the operations are
  exact on finite values. That is what float64 does on the values of the evaluations
  below (whole numbers of a few digits, and quotients that are short binary fractions);
  it is not float64 where float64 rounds or overflows. The infinities and \<open>nan\<close> follow
  IEEE 754: a non-zero finite value over zero is an infinity with its sign, zero over
  zero is \<open>nan\<close>, and \<open>nan\<close> spreads.
\<close>

datatype fval = Fin rat | PosInf | NegInf | NaN

definition fval_sign :: "fval \<Rightarrow> rat" where
  "fval_sign a = (case a of Fin x \<Rightarrow> sgn x | PosInf \<Rightarrow> 1 | NegInf \<Rightarrow> - 1 | NaN \<Rightarrow> 0)"

definition inf_of_sign :: "rat \<Rightarrow> fval" where
  "inf_of_sign s = (if s > 0 then PosInf else if s < 0 then NegInf else NaN)"

definition fval_add :: "fval \<Rightarrow> fval \<Rightarrow> fval" where
  "fval_add a b =
     (case (a, b) of
        (Fin x, Fin y) \<Rightarrow> Fin (x + y)
      | (NaN, _) \<Rightarrow> NaN
      | (_, NaN) \<Rightarrow> NaN
      | (PosInf, NegInf) \<Rightarrow> NaN
      | (NegInf, PosInf) \<Rightarrow> NaN
      | (PosInf, _) \<Rightarrow> PosInf
      | (_, PosInf) \<Rightarrow> PosInf
      | _ \<Rightarrow> NegInf)"

definition fval_neg :: "fval \<Rightarrow> fval" where
  "fval_neg a =
     (case a of Fin x \<Rightarrow> Fin (- x) | PosInf \<Rightarrow> NegInf | NegInf \<Rightarrow> PosInf | NaN \<Rightarrow> NaN)"

definition fval_mul :: "fval \<Rightarrow> fval \<Rightarrow> fval" where
  "fval_mul a b =
     (case (a, b) of
        (Fin x, Fin y) \<Rightarrow> Fin (x * y)
      | (NaN, _) \<Rightarrow> NaN
      | (_, NaN) \<Rightarrow> NaN
      | _ \<Rightarrow> inf_of_sign (fval_sign a * fval_sign b))"

definition fval_div :: "fval \<Rightarrow> fval \<Rightarrow> fval" where
  "fval_div a b =
     (case (a, b) of
        (Fin x, Fin y) \<Rightarrow> if y = 0 then inf_of_sign (sgn x) else Fin (x / y)
      | (NaN, _) \<Rightarrow> NaN
      | (_, NaN) \<Rightarrow> NaN
      | (Fin x, _) \<Rightarrow> Fin 0
      | (_, Fin y) \<Rightarrow> inf_of_sign (fval_sign a * (if y < 0 then - 1 else 1))
      | _ \<Rightarrow> NaN)"

definition fval_sum :: "fval list \<Rightarrow> fval" where
  "fval_sum fs = foldl fval_add (Fin 0) fs"

definition exact_float64 :: "fval float64" where
  "exact_float64 =
     \<lparr>fsub = (\<lambda>a b. fval_add a (fval_neg b)),
      fdiv = fval_div,
      fmul = fval_mul,
      fsum = fval_sum,
      fmean = (\<lambda>fs. fval_div (fval_sum fs) (Fin (of_nat (length fs)))),
      mean_int64 =
        (\<lambda>ws. fval_div (Fin (of_int (sum_list (map sint ws)))) (Fin (of_nat (length ws)))),
      of_int64 = (\<lambda>w. Fin (of_int (sint w))),
      of_pyint = (\<lambda>k. Fin (of_int k)),
      is_zero = (\<lambda>f. f = Fin 0),
      isfinite = (\<lambda>f. case f of Fin x \<Rightarrow> True | _ \<Rightarrow> False)\<rparr>"

text \<open>
  A frame built from a Python dict of lists: the columns in insertion order. Storing under
  a key that is already there replaces the value and keeps the key's place, as a dict
  literal with a repeated key and \<open>df[key] = ...\<close> both do.
\<close>

type_synonym frame = "(string \<times> cell list) list"

fun dict_set :: "string \<Rightarrow> 'v \<Rightarrow> (string \<times> 'v) list \<Rightarrow> (string \<times> 'v) list" where
  "dict_set k v [] = [(k, v)]"
| "dict_set k v ((k', v') # d) =
     (if k' = k then (k, v) # d else (k', v') # dict_set k v d)"

definition digit :: "nat \<Rightarrow> char" where
  "digit d = ''0123456789'' ! (d mod 10)"

definition two_digits :: "nat \<Rightarrow> string" where
  "two_digits n = [digit (n div 10 mod 10), digit (n mod 10)]"

definition four_digits :: "nat \<Rightarrow> string" where
  "four_digits n =
     [digit (n div 1000 mod 10), digit (n div 100 mod 10), digit (n div 10 mod 10),
      digit (n mod 10)]"

text \<open>\<open>strftime('%d/%m/%Y')\<close>: zero-padded day and month, four-digit year.\<close>

definition strftime_dmy :: "timestamp \<Rightarrow> string" where
  "strftime_dmy t = two_digits (day t) @ ''/'' @ two_digits (month t) @ ''/'' @ four_digits (year t)"

text \<open>
  The frame \<open>create_download_csv\<close> builds before it writes it out: the dict literal with
  the keys \<open>'Date'\<close>, \<open>value_col_name\<close> and \<open>'Type'\<close> in this order, then the \<open>Date\<close> column
  replaced by its \<open>strftime\<close> rendering (\<open>NaT\<close> renders as missing).
\<close>

definition combined_df :: "pandas \<Rightarrow> series \<Rightarrow> series \<Rightarrow> string \<Rightarrow> string + frame" where
  "combined_df pd historical_data forecast_data value_col_name =
     (let d = dict_set ''Type''
                (replicate (length historical_data) (Str ''Historical'')
                   @ replicate (length forecast_data) (Str ''Forecast''))
                (dict_set value_col_name
                   (map (\<lambda>row. Num (snd row)) historical_data
                      @ map (\<lambda>row. Num (snd row)) forecast_data)
                   (dict_set ''Date''
                      (map (\<lambda>row. Ts (fst row)) historical_data
                         @ map (\<lambda>row. Ts (fst row)) forecast_data) []))
      in case map_of d ''Date'' of
           None \<Rightarrow> Inl ''KeyError''
         | Some dates \<Rightarrow>
             (case to_datetime pd None dates of
                Inl e \<Rightarrow> Inl e
              | Inr parsed \<Rightarrow>
                  Inr (dict_set ''Date''
                         (map (\<lambda>p. case p of None \<Rightarrow> NA | Some t \<Rightarrow> Str (strftime_dmy t)) parsed)
                         d)))"

text \<open>
  \<open>create_download_csv\<close>: \<open>to_csv\<close> stands for \<open>combined_df.to_csv(index=False)\<close>, pandas'
  writer, which prints the header and then the rows of the frame it is given.
\<close>

definition create_download_csv ::
  "pandas \<Rightarrow> (frame \<Rightarrow> string) \<Rightarrow> series \<Rightarrow> series \<Rightarrow> string \<Rightarrow> string + string" where
  "create_download_csv pd to_csv historical_data forecast_data value_col_name =
     (case combined_df pd historical_data forecast_data value_col_name of
        Inl e \<Rightarrow> Inl e
      | Inr df \<Rightarrow> Inr (to_csv df))"

section \<open>A concrete pandas for running the model\<close>

text \<open>
  To evaluate the functions above on concrete tables, a pandas restricted to the cells
  those tables hold: timestamps, numbers, missing cells, and strings that are either ISO
  dates \<open>YYYY-MM-DD\<close> or dates in no format at all. On these, a string parses (under
  \<open>%Y-%m-%d\<close>, the first common format, and under generic parsing) exactly when it is an
  ISO date; \<open>str\<close> of a timestamp is \<open>YYYY-MM-DD HH:MM:SS\<close>, so it parses under that format
  only; a timestamp converts to itself; a number is its own numeric value. Rows of equal
  date keep their order, as they do in numpy's sort on tables as short as these (up to 16
  rows it sorts by insertion).
\<close>

definition digit_val :: "char \<Rightarrow> nat option" where
  "digit_val c = map_of (zip ''0123456789'' [0, 1, 2, 3, 4, 5, 6, 7, 8, 9]) c"

fun num_of :: "nat \<Rightarrow> string \<Rightarrow> nat option" where
  "num_of acc [] = Some acc"
| "num_of acc (c # cs) =
     (case digit_val c of None \<Rightarrow> None | Some d \<Rightarrow> num_of (acc * 10 + d) cs)"

definition parse_iso :: "string \<Rightarrow> timestamp option" where
  "parse_iso s =
     (if length s = 10 \<and> s ! 4 = CHR ''-'' \<and> s ! 7 = CHR ''-'' then
        (case (num_of 0 (take 4 s), num_of 0 (take 2 (drop 5 s)), num_of 0 (drop 8 s)) of
           (Some y, Some m, Some d) \<Rightarrow>
             if 1 \<le> m \<and> m \<le> 12 \<and> 1 \<le> d \<and> d \<le> days_in_month y m
             then Some \<lparr>year = y, month = m, day = d, tod = 0\<rparr> else None
         | _ \<Rightarrow> None)
      else None)"

definition iso_cell :: "cell \<Rightarrow> timestamp option" where
  "iso_cell c = (case c of Ts t \<Rightarrow> Some t | Str s \<Rightarrow> parse_iso s | _ \<Rightarrow> None)"

definition iso_pd :: pandas where
  "iso_pd =
     \<lparr>strptime_ok =
        (\<lambda>fmt c. case c of
                   Str s \<Rightarrow> fmt = ''%Y-%m-%d'' \<and> parse_iso s \<noteq> None
                 | Ts t \<Rightarrow> fmt = ''%Y-%m-%d %H:%M:%S''
                 | _ \<Rightarrow> False),
      to_datetime =
        (\<lambda>fmt col. if list_ex (\<lambda>c. notna c \<and> iso_cell c = None) col
                    then Inl ''time data does not match format''
                    else Inr (map iso_cell col)),
      to_datetime_coerce = (\<lambda>fmt col. map iso_cell col),
      to_numeric = (\<lambda>c. case c of Num r \<Rightarrow> Some r | _ \<Rightarrow> None),
      tie_order = (\<lambda>keys i. i)\<rparr>"

text \<open>
  Six monthly rows with one revenue cell missing, as a sheet with an empty cell loads.
\<close>

definition six_rows_one_missing :: dataframe where
  "six_rows_one_missing =
     [\<lparr>name = ''Date'', dtype = Object,
       cells = [Str ''2024-01-01'', Str ''2024-02-01'', Str ''2024-03-01'',
                Str ''2024-04-01'', Str ''2024-05-01'', Str ''2024-06-01'']\<rparr>,
      \<lparr>name = ''Revenue'', dtype = Numeric,
       cells = [Num 100, Num 110, NA, Num 130, Num 140, Num 150]\<rparr>]"

text \<open>Six complete rows in which one date occurs twice, given out of order.\<close>

definition repeated_date_table :: dataframe where
  "repeated_date_table =
     [\<lparr>name = ''Date'', dtype = Object,
       cells = [Str ''2024-03-01'', Str ''2024-01-01'', Str ''2024-02-01'',
                Str ''2024-02-01'', Str ''2024-04-01'', Str ''2024-05-01'']\<rparr>,
      \<lparr>name = ''Revenue'', dtype = Numeric,
       cells = [Num 30, Num 10, Num 20, Num 25, Num 40, Num 50]\<rparr>]"

text \<open>Five rows of which exactly four hold a date: 80% of the column parses.\<close>

definition four_of_five_table :: dataframe where
  "four_of_five_table =
     [\<lparr>name = ''Booked'', dtype = Object,
       cells = [Str ''2024-01-01'', Str ''2024-02-01'', Str ''2024-03-01'',
                Str ''2024-04-01'', Str ''TBC'']\<rparr>,
      \<lparr>name = ''Revenue'', dtype = Numeric,
       cells = [Num 100, Num 110, Num 120, Num 130, Num 140]\<rparr>]"

text \<open>
  A table whose first date-like column has no keyword in its name and whose second has.
\<close>

definition keyword_second_table :: dataframe where
  "keyword_second_table =
     [\<lparr>name = ''Booked'', dtype = Object,
       cells = [Str ''2024-01-05'', Str ''2024-02-05'']\<rparr>,
      \<lparr>name = ''Invoice Date'', dtype = Object,
       cells = [Str ''2024-01-01'', Str ''2024-02-01'']\<rparr>,
      \<lparr>name = ''Year'', dtype = Numeric, cells = [Num 2024, Num 2024]\<rparr>]"

text \<open>Five complete monthly rows: one short of the minimum.\<close>

definition five_row_table :: dataframe where
  "five_row_table =
     [\<lparr>name = ''Date'', dtype = Object,
       cells = [Str ''2024-01-01'', Str ''2024-02-01'', Str ''2024-03-01'',
                Str ''2024-04-01'', Str ''2024-05-01'']\<rparr>,
      \<lparr>name = ''Revenue'', dtype = Numeric,
       cells = [Num 100, Num 110, Num 120, Num 130, Num 140]\<rparr>]"

section \<open>Properties of the Forecast Engine\<close>

lemma length_month_starts: "length (month_starts t n) = n"
  by (induction n arbitrary: t) simp_all

lemma length_date_range_MS: "length (date_range_MS s n) = n"
  by (simp add: date_range_MS_def length_month_starts)

lemma generate_forecast_index:
  assumes "generate_forecast sm ts h = (Some fc, m, e)"
  shows "ts \<noteq> [] \<and> length fc = h
         \<and> map fst fc = date_range_MS (add_one_month (fst (last ts))) h"
  using assms
  by (auto simp: generate_forecast_def forecasting_error_def Let_def length_date_range_MS
           split: sum.splits if_splits)

lemma day_add_one_month: "2 \<le> day t \<Longrightarrow> 2 \<le> day (add_one_month t)"
  by (simp add: add_one_month_def Let_def days_in_month_def)

lemma forecast_start_from_month_start:
  "day t = 1 \<Longrightarrow> rollforward (add_one_month t) = next_month_start t"
  by (simp add: rollforward_def add_one_month_def next_month_start_def Let_def
        days_in_month_def)

lemma forecast_start_from_mid_month:
  assumes "2 \<le> day t"
  shows "rollforward (add_one_month t) = next_month_start (next_month_start t)"
proof -
  have "day (add_one_month t) \<noteq> 1"
    using day_add_one_month [OF assms] by simp
  then have "rollforward (add_one_month t) = next_month_start (add_one_month t)"
    by (simp add: rollforward_def)
  also have "\<dots> = next_month_start (next_month_start t)"
    by (simp add: add_one_month_def next_month_start_def Let_def)
  finally show ?thesis .
qed

text \<open>
  C1. The configuration is chosen from the length \<open>n\<close> of the series alone: additive
  trend, additive seasonality of period 12 and damping exactly when \<open>n \<ge> 24\<close>; additive
  trend with damping and no seasonality exactly when \<open>12 \<le> n < 24\<close>; additive trend with
  neither exactly when \<open>n < 12\<close>. And this is the configuration \<open>generate_forecast\<close>
  hands to the solver: if building the model with it fails, that error is the result; if
  building, fitting and predicting succeed, the result carries the model fitted from it; a
  solver that records its configuration gets exactly this one; and a solver that refuses
  every other configuration gives the same result.
\<close>

theorem model_config_by_length:
  "(model_config n = \<lparr>trend = Some ''add'', seasonal = Some ''add'',
                      seasonal_periods = Some 12, damped_trend = True\<rparr>) = (n \<ge> 24)
   \<and> (model_config n = \<lparr>trend = Some ''add'', seasonal = None,
                      seasonal_periods = None, damped_trend = True\<rparr>) = (12 \<le> n \<and> n < 24)
   \<and> (model_config n = \<lparr>trend = Some ''add'', seasonal = None,
                      seasonal_periods = None, damped_trend = False\<rparr>) = (n < 12)
   \<and> (ExponentialSmoothing sm ts (model_config (length ts)) = Inl e \<longrightarrow>
        generate_forecast sm ts h = (None, None, Some (''Forecasting error: '' @ e)))
   \<and> (ExponentialSmoothing sm ts (model_config (length ts)) = Inr m \<and> fit sm m = Inr f
        \<and> forecast sm f h = Inr vals \<and> ts \<noteq> [] \<and> length vals = h \<longrightarrow>
        generate_forecast sm ts h
        = (Some (zip (date_range_MS (add_one_month (fst (last ts))) h) vals), Some f, None))
   \<and> (ts \<noteq> [] \<longrightarrow>
        fst (snd (generate_forecast recording_sm ts h)) = Some (model_config (length ts)))
   \<and> generate_forecast
         (sm\<lparr>ExponentialSmoothing :=
               (\<lambda>s cfg. if cfg = model_config (length ts) then ExponentialSmoothing sm s cfg
                         else Inl ''not called'')\<rparr>) ts h
       = generate_forecast sm ts h"
proof -
  have a: "ExponentialSmoothing sm ts (model_config (length ts)) = Inl e \<longrightarrow>
        generate_forecast sm ts h = (None, None, Some (''Forecasting error: '' @ e))"
    by (simp add: generate_forecast_def forecasting_error_def Let_def)
  have b: "ExponentialSmoothing sm ts (model_config (length ts)) = Inr m \<and> fit sm m = Inr f
        \<and> forecast sm f h = Inr vals \<and> ts \<noteq> [] \<and> length vals = h \<longrightarrow>
        generate_forecast sm ts h
        = (Some (zip (date_range_MS (add_one_month (fst (last ts))) h) vals), Some f, None)"
    by (simp add: generate_forecast_def Let_def length_date_range_MS)
  have c: "ts \<noteq> [] \<longrightarrow>
        fst (snd (generate_forecast recording_sm ts h)) = Some (model_config (length ts))"
    by (simp add: generate_forecast_def recording_sm_def Let_def length_date_range_MS)
  have d: "generate_forecast
          (sm\<lparr>ExponentialSmoothing :=
                (\<lambda>s cfg. if cfg = model_config (length ts) then ExponentialSmoothing sm s cfg
                          else Inl ''not called'')\<rparr>) ts h
        = generate_forecast sm ts h"
    by (simp add: generate_forecast_def Let_def cong: sum.case_cong)
  have e: "(model_config n = \<lparr>trend = Some ''add'', seasonal = Some ''add'',
                      seasonal_periods = Some 12, damped_trend = True\<rparr>) = (n \<ge> 24)
   \<and> (model_config n = \<lparr>trend = Some ''add'', seasonal = None,
                      seasonal_periods = None, damped_trend = True\<rparr>) = (12 \<le> n \<and> n < 24)
   \<and> (model_config n = \<lparr>trend = Some ''add'', seasonal = None,
                      seasonal_periods = None, damped_trend = False\<rparr>) = (n < 12)"
    by (simp add: model_config_def)
  from a b c d e show ?thesis by blast
qed

theorem model_config_by_length_witness:
  "fst (snd (generate_forecast recording_sm
               (replicate 24 (\<lparr>year = 2024, month = 1, day = 1, tod = 0\<rparr>, 100)) 3))
     = Some \<lparr>trend = Some ''add'', seasonal = Some ''add'', seasonal_periods = Some 12,
              damped_trend = True\<rparr>
   \<and> fst (snd (generate_forecast recording_sm
               (replicate 12 (\<lparr>year = 2024, month = 1, day = 1, tod = 0\<rparr>, 100)) 3))
     = Some \<lparr>trend = Some ''add'', seasonal = None, seasonal_periods = None,
              damped_trend = True\<rparr>
   \<and> fst (snd (generate_forecast recording_sm
               (replicate 6 (\<lparr>year = 2024, month = 1, day = 1, tod = 0\<rparr>, 100)) 3))
     = Some \<lparr>trend = Some ''add'', seasonal = None, seasonal_periods = None,
              damped_trend = False\<rparr>"
  using model_config_by_length
          [of 24 recording_sm "replicate 24 (\<lparr>year = 2024, month = 1, day = 1, tod = 0\<rparr>, 100)"
              _ 3]
        model_config_by_length
          [of 12 recording_sm "replicate 12 (\<lparr>year = 2024, month = 1, day = 1, tod = 0\<rparr>, 100)"
              _ 3]
        model_config_by_length
          [of 6 recording_sm "replicate 6 (\<lparr>year = 2024, month = 1, day = 1, tod = 0\<rparr>, 100)"
              _ 3]
  by simp

text \<open>
  C2, evaluated on the code. The history ends on 21 November 2024 (the last date the
  repository's \<open>generate_sample_data.py\<close> produces: 1 January 2023 plus 23 steps of 30
  days). One month later is 21 December, which is not a month start, so \<open>date_range\<close>
  rolls forward: the two forecast points are dated 1 January and 1 February 2025, and
  December 2024, the month following the last historical date, gets no point.
\<close>

theorem generate_forecast_skips_a_month:
  "generate_forecast naive_sm
     [(\<lparr>year = 2024, month = 10, day = 22, tod = 0\<rparr>, 100),
      (\<lparr>year = 2024, month = 11, day = 21, tod = 0\<rparr>, 110)] 2
   = (Some [(\<lparr>year = 2025, month = 1, day = 1, tod = 0\<rparr>, 110),
            (\<lparr>year = 2025, month = 2, day = 1, tod = 0\<rparr>, 110)],
      Some [(\<lparr>year = 2024, month = 10, day = 22, tod = 0\<rparr>, 100),
            (\<lparr>year = 2024, month = 11, day = 21, tod = 0\<rparr>, 110)],
      None)"
  by (simp add: generate_forecast_def naive_sm_def date_range_MS_def rollforward_def
        add_one_month_def next_month_start_def days_in_month_def is_leap_def Let_def
        numeral_2_eq_2)

text \<open>
  C9. \<open>generate_forecast\<close> always returns its triple: an error raised while the model is
  built, fitted or asked for its prediction comes back as the message
  \<open>Forecasting error: \<close> followed by the error's text, with no forecast and no model; and
  every result is either such an error triple or a forecast with its fitted model and no
  message.
\<close>

theorem generate_forecast_catches_errors:
  "(ExponentialSmoothing sm ts (model_config (length ts)) = Inl e \<longrightarrow>
      generate_forecast sm ts h = (None, None, Some (''Forecasting error: '' @ e)))
   \<and> (ExponentialSmoothing sm ts (model_config (length ts)) = Inr m \<and> fit sm m = Inl e \<longrightarrow>
      generate_forecast sm ts h = (None, None, Some (''Forecasting error: '' @ e)))
   \<and> (ExponentialSmoothing sm ts (model_config (length ts)) = Inr m \<and> fit sm m = Inr f
        \<and> forecast sm f h = Inl e \<longrightarrow>
      generate_forecast sm ts h = (None, None, Some (''Forecasting error: '' @ e)))
   \<and> ((\<exists>msg. generate_forecast sm ts h = (None, None, Some (''Forecasting error: '' @ msg)))
        \<or> (\<exists>fc fitted. generate_forecast sm ts h = (Some fc, Some fitted, None)))"
  by (simp add: generate_forecast_def forecasting_error_def Let_def split: sum.splits)

theorem generate_forecast_catches_errors_witness:
  "fit failing_fit_sm [(\<lparr>year = 2024, month = 11, day = 1, tod = 0\<rparr>, 100)]
     = Inl ''optimizer did not converge''
   \<and> generate_forecast failing_fit_sm [(\<lparr>year = 2024, month = 11, day = 1, tod = 0\<rparr>, 100)] 3
     = (None, None, Some ''Forecasting error: optimizer did not converge'')"
  using generate_forecast_catches_errors
          [of failing_fit_sm "[(\<lparr>year = 2024, month = 11, day = 1, tod = 0\<rparr>, 100)]"
              "''optimizer did not converge''" 3
              "[(\<lparr>year = 2024, month = 11, day = 1, tod = 0\<rparr>, 100)]"]
  by (simp add: failing_fit_sm_def naive_sm_def)

section \<open>Properties of the Column Classifier\<close>

lemma find_filter: "find P xs = (case filter P xs of [] \<Rightarrow> None | x # _ \<Rightarrow> Some x)"
  by (induction xs) auto

text \<open>The loop appends, in column order, the accepted columns to one list or the other.\<close>

lemma detect_loop_eq:
  "detect_loop pd n cs (km, dc)
   = (km @ map name (filter (\<lambda>c. date_qualifying pd n c \<and> is_keyword_match (name c)) cs),
      dc @ map name (filter (\<lambda>c. date_qualifying pd n c \<and> \<not> is_keyword_match (name c)) cs))"
proof (induction cs arbitrary: km dc)
  case Nil
  then show ?case by simp
next
  case (Cons c cs)
  show ?case
    by (cases "dtype c") (simp_all add: Cons.IH date_qualifying_def)
qed

lemma all_date_cols_eq:
  "all_date_cols pd df
   = map name (filter (\<lambda>c. date_qualifying pd (len_df df) c \<and> is_keyword_match (name c)) df)
     @ map name (filter (\<lambda>c. date_qualifying pd (len_df df) c \<and> \<not> is_keyword_match (name c)) df)"
  by (simp add: all_date_cols_def detect_loop_eq)

lemma set_all_date_cols:
  "set (all_date_cols pd df) = name ` {c \<in> set df. date_qualifying pd (len_df df) c}"
  by (auto simp: all_date_cols_eq)

lemma keyword_second_table_cols:
  "all_date_cols iso_pd keyword_second_table = [''Invoice Date'', ''Booked'']"
  by code_simp

text \<open>
  C6, as the claim states it, fails on the code. In this table four of the five entries of
  \<open>Booked\<close> parse as dates, which is 80% of the column, and the column is not accepted:
  no date column is detected.
\<close>

theorem exactly_80_percent_is_rejected:
  "len_df four_of_five_table = 5
   \<and> parsed_count iso_pd (cells (hd four_of_five_table)) = 4
   \<and> dtype (hd four_of_five_table) = Object
   \<and> all_date_cols iso_pd four_of_five_table = []
   \<and> detect_date_column iso_pd four_of_five_table = None"
  by code_simp

text \<open>
  C6, amended. A column that is neither numeric nor datetime-typed is accepted as a date
  candidate exactly when strictly more than 80% of the table's rows parse as dates (under
  the inferred format when there is one, under generic parsing otherwise): the test is
  \<open>valid_ratio > 0.8\<close>. Column labels are distinct, as they are in a loaded sheet.
\<close>

theorem accepted_iff_more_than_80_percent:
  assumes "c \<in> set df" and "dtype c = Object" and "distinct (map name df)"
  shows "(name c \<in> set (all_date_cols pd df))
         = (4 * len_df df < 5 * parsed_count pd (cells c))"
proof -
  have inj: "inj_on name (set df)"
    using assms(3) by (simp add: distinct_map)
  have "(name c \<in> set (all_date_cols pd df)) = date_qualifying pd (len_df df) c"
    using assms(1) inj by (auto simp: set_all_date_cols dest: inj_onD)
  then show ?thesis
    using assms(2) by (simp add: date_qualifying_def)
qed

theorem accepted_iff_more_than_80_percent_witness:
  "''Booked'' \<in> set (all_date_cols iso_pd keyword_second_table)
   \<and> 4 * len_df keyword_second_table
       < 5 * parsed_count iso_pd [Str ''2024-01-05'', Str ''2024-02-05'']"
proof -
  let ?c = "\<lparr>name = ''Booked'', dtype = Object,
             cells = [Str ''2024-01-05'', Str ''2024-02-05'']\<rparr>"
  have 1: "?c \<in> set keyword_second_table"
    by (simp add: keyword_second_table_def)
  have 2: "dtype ?c = Object"
    by simp
  have 3: "distinct (map name keyword_second_table)"
    by (simp add: keyword_second_table_def)
  have 4: "4 * len_df keyword_second_table < 5 * parsed_count iso_pd (cells ?c)"
    by code_simp
  from accepted_iff_more_than_80_percent [OF 1 2 3, of iso_pd] 4
  have "name ?c \<in> set (all_date_cols iso_pd keyword_second_table)"
    by blast
  with 4 show ?thesis by simp
qed

text \<open>
  C7. When some column of the table qualifies as a date column (datetime-typed, or parsing
  as dates in more than 80% of the rows) and has a date keyword in its name, the detected
  column is the first such column in column order, whatever qualifying columns without a
  keyword stand before it.
\<close>

theorem keyword_column_preferred:
  assumes "c \<in> set df" and "date_qualifying pd (len_df df) c" and "is_keyword_match (name c)"
  shows "\<exists>k. find (\<lambda>c. date_qualifying pd (len_df df) c \<and> is_keyword_match (name c)) df = Some k
             \<and> detect_date_column pd df = Some (name k)
             \<and> k \<in> set df \<and> date_qualifying pd (len_df df) k \<and> is_keyword_match (name k)"
proof -
  let ?P = "\<lambda>c. date_qualifying pd (len_df df) c \<and> is_keyword_match (name c)"
  from assms have "c \<in> set (filter ?P df)" by simp
  then obtain k ks where kks: "filter ?P df = k # ks"
    by (cases "filter ?P df") auto
  then have "k \<in> set (filter ?P df)" by simp
  then have kP: "k \<in> set df \<and> ?P k" by simp
  have "find ?P df = Some k"
    by (simp add: find_filter kks)
  moreover have "detect_date_column pd df = Some (name k)"
    by (simp add: detect_date_column_def all_date_cols_eq kks)
  ultimately show ?thesis using kP by blast
qed

theorem keyword_column_preferred_witness:
  "is_keyword_match ''Invoice Date'' \<and> \<not> is_keyword_match ''Booked''
   \<and> all_date_cols iso_pd keyword_second_table = [''Invoice Date'', ''Booked'']
   \<and> detect_date_column iso_pd keyword_second_table = Some ''Invoice Date''"
proof -
  let ?c = "\<lparr>name = ''Invoice Date'', dtype = Object,
             cells = [Str ''2024-01-01'', Str ''2024-02-01'']\<rparr>"
  let ?P = "\<lambda>c. date_qualifying iso_pd (len_df keyword_second_table) c
                 \<and> is_keyword_match (name c)"
  have 1: "?c \<in> set keyword_second_table"
    by (simp add: keyword_second_table_def)
  have 2: "date_qualifying iso_pd (len_df keyword_second_table) ?c"
    by code_simp
  have 3: "is_keyword_match (name ?c)"
    by code_simp
  have 4: "find ?P keyword_second_table = Some ?c"
    by code_simp
  from keyword_column_preferred [OF 1 2 3] obtain k
    where "find ?P keyword_second_table = Some k"
      and "detect_date_column iso_pd keyword_second_table = Some (name k)"
    by blast
  with 4 have "detect_date_column iso_pd keyword_second_table = Some ''Invoice Date''"
    by simp
  moreover have "\<not> is_keyword_match ''Booked''"
    by code_simp
  ultimately show ?thesis
    using 3 keyword_second_table_cols by simp
qed

text \<open>
  C10. A numeric column is skipped by the loop whatever its values are (both branches of
  the year test \<open>continue\<close>), so the detected column, when there is one, is a column of
  the table that is not of numeric dtype.
\<close>

theorem numeric_columns_never_detected:
  "(dtype col = Numeric \<longrightarrow> detect_loop pd n (col # rest) acc = detect_loop pd n rest acc)
   \<and> (detect_date_column pd df = Some nm \<longrightarrow>
        (\<exists>c\<in>set df. name c = nm \<and> dtype c \<noteq> Numeric))"
proof -
  have a: "dtype col = Numeric \<longrightarrow>
           detect_loop pd n (col # rest) acc = detect_loop pd n rest acc"
    by (cases acc) simp
  have b: "\<exists>c\<in>set df. name c = nm \<and> dtype c \<noteq> Numeric"
    if "detect_date_column pd df = Some nm"
  proof -
    from that have "nm \<in> set (all_date_cols pd df)"
      by (auto simp: detect_date_column_def split: list.splits)
    then obtain c where "c \<in> set df" "date_qualifying pd (len_df df) c" "name c = nm"
      by (auto simp: set_all_date_cols)
    then show ?thesis
      by (auto simp: date_qualifying_def)
  qed
  from a b show ?thesis by blast
qed

theorem numeric_columns_never_detected_witness:
  "detect_loop iso_pd 2 [\<lparr>name = ''Year'', dtype = Numeric, cells = [Num 2024, Num 2024]\<rparr>]
     ([''Invoice Date''], [''Booked'']) = ([''Invoice Date''], [''Booked''])
   \<and> detect_date_column iso_pd keyword_second_table = Some ''Invoice Date''
   \<and> (\<exists>c\<in>set keyword_second_table. name c = ''Invoice Date'' \<and> dtype c \<noteq> Numeric)"
proof -
  have d: "detect_date_column iso_pd keyword_second_table = Some ''Invoice Date''"
    by (simp add: detect_date_column_def keyword_second_table_cols)
  from numeric_columns_never_detected
         [of "\<lparr>name = ''Year'', dtype = Numeric, cells = [Num 2024, Num 2024]\<rparr>"
             iso_pd 2 "[]" "([''Invoice Date''], [''Booked''])"
             keyword_second_table "''Invoice Date''"] d
  show ?thesis by simp
qed

section \<open>Properties of the Series Builder\<close>

text \<open>Sorting rearranges the rows, whatever the order of ties, and puts the dates in order.\<close>

lemma mset_sort_values: "mset (sort_values pd rows) = mset rows"
proof -
  have "map snd (zip [0..<length rows] rows) = rows"
    by (simp add: map_snd_zip)
  then have "image_mset snd (mset (zip [0..<length rows] rows)) = mset rows"
    by (metis mset_map)
  then show ?thesis
    by (simp add: sort_values_def Let_def)
qed

lemma sorted_sort_values: "sorted (map (\<lambda>row. ts_ord (fst row)) (sort_values pd rows))"
proof -
  have "map (\<lambda>row. ts_ord (fst row)) (sort_values pd rows)
        = map (\<lambda>p. ts_ord (fst (snd p)))
            (sort_key (\<lambda>p. ts_ord (fst (snd p)))
               (sort_key (\<lambda>p. tie_order pd (map (\<lambda>row. ts_ord (fst row)) rows) (fst p))
                  (zip [0..<length rows] rows)))"
    by (simp add: sort_values_def Let_def o_def)
  then show ?thesis
    by (simp only: sorted_sort_key)
qed

lemma length_sort_values: "length (sort_values pd rows) = length rows"
  by (simp add: sort_values_def Let_def)

lemma length_filter_mset_eq:
  "mset xs = mset ys \<Longrightarrow> length (filter P xs) = length (filter P ys)"
  by (metis mset_filter size_mset)

lemma filter_dropna:
  "length (filter (\<lambda>row. fst row = t) (dropna rows))
   = length (filter (\<lambda>r. fst r = Some t \<and> snd r \<noteq> None) rows)"
proof (induction rows)
  case Nil
  then show ?case by (simp add: dropna_def map_filter_simps)
next
  case (Cons r rows)
  obtain d v where r: "r = (d, v)" by (cases r)
  from Cons show ?case
    by (cases d; cases v) (simp_all add: r dropna_def map_filter_simps)
qed

lemma six_rows_prepared:
  "prepare_time_series iso_pd six_rows_one_missing ''Date'' ''Revenue''
   = Inr [(\<lparr>year = 2024, month = 1, day = 1, tod = 0\<rparr>, 100),
          (\<lparr>year = 2024, month = 2, day = 1, tod = 0\<rparr>, 110),
          (\<lparr>year = 2024, month = 4, day = 1, tod = 0\<rparr>, 130),
          (\<lparr>year = 2024, month = 5, day = 1, tod = 0\<rparr>, 140),
          (\<lparr>year = 2024, month = 6, day = 1, tod = 0\<rparr>, 150)]"
  by code_simp

text \<open>
  C3, as the claim states it, fails on the code. The table has six rows, so
  \<open>validate_columns\<close> accepts it; one revenue cell is missing, so cleaning drops a row,
  and \<open>prepare_time_series\<close> returns a series of five points, with no error.
\<close>

theorem short_series_passes_validation:
  "len_df six_rows_one_missing = 6
   \<and> validate_columns iso_pd six_rows_one_missing ''Date'' ''Revenue'' = (True, None)
   \<and> prepare_time_series iso_pd six_rows_one_missing ''Date'' ''Revenue''
     = Inr [(\<lparr>year = 2024, month = 1, day = 1, tod = 0\<rparr>, 100),
            (\<lparr>year = 2024, month = 2, day = 1, tod = 0\<rparr>, 110),
            (\<lparr>year = 2024, month = 4, day = 1, tod = 0\<rparr>, 130),
            (\<lparr>year = 2024, month = 5, day = 1, tod = 0\<rparr>, 140),
            (\<lparr>year = 2024, month = 6, day = 1, tod = 0\<rparr>, 150)]"
proof -
  have "len_df six_rows_one_missing = 6"
    by (simp add: len_df_def six_rows_one_missing_def)
  moreover have "validate_columns iso_pd six_rows_one_missing ''Date'' ''Revenue'' = (True, None)"
    by code_simp
  ultimately show ?thesis
    using six_rows_prepared by simp
qed

lemma length_dropna: "length (dropna rows) \<le> length rows"
  by (simp add: dropna_def map_filter_def) 

text \<open>
  C3, amended. The length check of the Series Builder counts the rows of the table before
  cleaning: \<open>validate_columns\<close> fails, with a message, on every table of fewer than six
  rows, and a table it accepts has at least six rows and both columns. Cleaning only
  removes rows: the prepared series is never longer than the value column.
\<close>

theorem validate_columns_rejects_short_tables:
  "(len_df df < 6 \<longrightarrow> (\<exists>msg. validate_columns pd df d v = (False, Some msg)))
   \<and> (validate_columns pd df d v = (True, None) \<longrightarrow>
        6 \<le> len_df df \<and> get_col df d \<noteq> None \<and> get_col df v \<noteq> None)
   \<and> (prepare_time_series pd df d v = Inr ts \<longrightarrow>
        (\<exists>vc. get_col df v = Some vc \<and> length ts \<le> length (cells vc)))"
proof -
  have a: "len_df df < 6 \<longrightarrow> (\<exists>msg. validate_columns pd df d v = (False, Some msg))"
    by (simp add: validate_columns_def split: option.splits sum.splits)
  have b: "validate_columns pd df d v = (True, None) \<longrightarrow>
        6 \<le> len_df df \<and> get_col df d \<noteq> None \<and> get_col df v \<noteq> None"
    by (auto simp: validate_columns_def split: option.splits sum.splits if_splits)
  have c: "\<exists>vc. get_col df v = Some vc \<and> length ts \<le> length (cells vc)"
    if "prepare_time_series pd df d v = Inr ts"
  proof -
    from that obtain dc vc dates where
      vc: "get_col df v = Some vc" and
      ts: "ts = sort_values pd (dropna (zip dates (map (to_numeric pd) (cells vc))))"
      by (auto simp: prepare_time_series_def Let_def split: option.splits sum.splits if_splits)
    have "length ts = length (dropna (zip dates (map (to_numeric pd) (cells vc))))"
      unfolding ts by (rule length_sort_values)
    also have "\<dots> \<le> length (zip dates (map (to_numeric pd) (cells vc)))"
      by (rule length_dropna)
    also have "\<dots> \<le> length (cells vc)"
      by simp
    finally show ?thesis using vc by simp
  qed
  from a b c show ?thesis by blast
qed

theorem validate_columns_rejects_short_tables_witness:
  "len_df five_row_table < 6
   \<and> validate_columns iso_pd five_row_table ''Date'' ''Revenue''
     = (False, Some ''At least 6 data points are required for forecasting.'')"
proof -
  have 1: "len_df five_row_table < 6"
    by (simp add: len_df_def five_row_table_def)
  with validate_columns_rejects_short_tables [of five_row_table iso_pd "''Date''" "''Revenue''"]
  obtain msg where "validate_columns iso_pd five_row_table ''Date'' ''Revenue'' = (False, Some msg)"
    by blast
  moreover have "snd (validate_columns iso_pd five_row_table ''Date'' ''Revenue'')
                 = Some ''At least 6 data points are required for forecasting.''"
    by code_simp
  ultimately show ?thesis using 1 by simp
qed

lemma repeated_date_table_prepared:
  "prepare_time_series iso_pd repeated_date_table ''Date'' ''Revenue''
   = Inr [(\<lparr>year = 2024, month = 1, day = 1, tod = 0\<rparr>, 10),
          (\<lparr>year = 2024, month = 2, day = 1, tod = 0\<rparr>, 20),
          (\<lparr>year = 2024, month = 2, day = 1, tod = 0\<rparr>, 25),
          (\<lparr>year = 2024, month = 3, day = 1, tod = 0\<rparr>, 30),
          (\<lparr>year = 2024, month = 4, day = 1, tod = 0\<rparr>, 40),
          (\<lparr>year = 2024, month = 5, day = 1, tod = 0\<rparr>, 50)]"
  by code_simp

text \<open>
  C4, as the claim states it, fails on the code. A date that occurs in two rows occurs
  twice in the prepared series, whose timestamps are then not strictly increasing.
\<close>

theorem repeated_dates_pass_through:
  "prepare_time_series iso_pd repeated_date_table ''Date'' ''Revenue''
   = Inr [(\<lparr>year = 2024, month = 1, day = 1, tod = 0\<rparr>, 10),
          (\<lparr>year = 2024, month = 2, day = 1, tod = 0\<rparr>, 20),
          (\<lparr>year = 2024, month = 2, day = 1, tod = 0\<rparr>, 25),
          (\<lparr>year = 2024, month = 3, day = 1, tod = 0\<rparr>, 30),
          (\<lparr>year = 2024, month = 4, day = 1, tod = 0\<rparr>, 40),
          (\<lparr>year = 2024, month = 5, day = 1, tod = 0\<rparr>, 50)]
   \<and> \<not> sorted_wrt (<)
         (map (\<lambda>row. ts_ord (fst row))
            [(\<lparr>year = 2024, month = 1, day = 1, tod = 0\<rparr>, 10::rat),
             (\<lparr>year = 2024, month = 2, day = 1, tod = 0\<rparr>, 20),
             (\<lparr>year = 2024, month = 2, day = 1, tod = 0\<rparr>, 25),
             (\<lparr>year = 2024, month = 3, day = 1, tod = 0\<rparr>, 30),
             (\<lparr>year = 2024, month = 4, day = 1, tod = 0\<rparr>, 40),
             (\<lparr>year = 2024, month = 5, day = 1, tod = 0\<rparr>, 50)])"
  using repeated_date_table_prepared by (simp add: ts_ord_def)

text \<open>
  C4, amended. The series \<open>prepare_time_series\<close> returns has its timestamps in
  non-decreasing order, and it holds exactly the rows that survive cleaning, each as often
  as it occurs: for every date, as many points as the table has rows with that date and a
  value. So equal dates are all kept, and the timestamps are strictly increasing exactly
  when no two of them are equal.
\<close>

theorem prepare_time_series_sorted:
  assumes "prepare_time_series pd df d v = Inr ts"
  shows "sorted (map (\<lambda>row. ts_ord (fst row)) ts)
         \<and> (\<exists>dc vc dates.
               get_col df d = Some dc \<and> get_col df v = Some vc
               \<and> to_datetime pd (infer_date_format pd (cells dc)) (cells dc) = Inr dates
               \<and> mset ts = mset (dropna (zip dates (map (to_numeric pd) (cells vc))))
               \<and> (\<forall>t. length (filter (\<lambda>row. fst row = t) ts)
                        = length (filter (\<lambda>r. fst r = Some t \<and> snd r \<noteq> None)
                                    (zip dates (map (to_numeric pd) (cells vc))))))
         \<and> (sorted_wrt (<) (map (\<lambda>row. ts_ord (fst row)) ts)
              = distinct (map (\<lambda>row. ts_ord (fst row)) ts))"
proof -
  from assms obtain dc vc dates where
    dc: "get_col df d = Some dc" and vc: "get_col df v = Some vc" and
    dates: "to_datetime pd (infer_date_format pd (cells dc)) (cells dc) = Inr dates" and
    ts: "ts = sort_values pd (dropna (zip dates (map (to_numeric pd) (cells vc))))"
    by (auto simp: prepare_time_series_def Let_def split: option.splits sum.splits if_splits)
  let ?rows = "zip dates (map (to_numeric pd) (cells vc))"
  have s: "sorted (map (\<lambda>row. ts_ord (fst row)) ts)"
    unfolding ts by (rule sorted_sort_values)
  have m: "mset ts = mset (dropna ?rows)"
    unfolding ts by (rule mset_sort_values)
  have c: "length (filter (\<lambda>row. fst row = t) ts)
           = length (filter (\<lambda>r. fst r = Some t \<and> snd r \<noteq> None) ?rows)" for t
    using length_filter_mset_eq [OF m] filter_dropna by metis
  from s have "sorted_wrt (<) (map (\<lambda>row. ts_ord (fst row)) ts)
              = distinct (map (\<lambda>row. ts_ord (fst row)) ts)"
    by (simp add: strict_sorted_iff)
  with s m c dc vc dates show ?thesis by blast
qed


theorem prepare_time_series_sorted_witness:
  "sorted (map (\<lambda>row. ts_ord (fst row))
     [(\<lparr>year = 2024, month = 1, day = 1, tod = 0\<rparr>, 10::rat),
      (\<lparr>year = 2024, month = 2, day = 1, tod = 0\<rparr>, 20),
      (\<lparr>year = 2024, month = 2, day = 1, tod = 0\<rparr>, 25),
      (\<lparr>year = 2024, month = 3, day = 1, tod = 0\<rparr>, 30),
      (\<lparr>year = 2024, month = 4, day = 1, tod = 0\<rparr>, 40),
      (\<lparr>year = 2024, month = 5, day = 1, tod = 0\<rparr>, 50)])
   \<and> length (filter (\<lambda>row. fst row = \<lparr>year = 2024, month = 2, day = 1, tod = 0\<rparr>)
        [(\<lparr>year = 2024, month = 1, day = 1, tod = 0\<rparr>, 10::rat),
         (\<lparr>year = 2024, month = 2, day = 1, tod = 0\<rparr>, 20),
         (\<lparr>year = 2024, month = 2, day = 1, tod = 0\<rparr>, 25),
         (\<lparr>year = 2024, month = 3, day = 1, tod = 0\<rparr>, 30),
         (\<lparr>year = 2024, month = 4, day = 1, tod = 0\<rparr>, 40),
         (\<lparr>year = 2024, month = 5, day = 1, tod = 0\<rparr>, 50)]) = 2"
proof -
  from prepare_time_series_sorted [OF repeated_date_table_prepared]
  have "sorted (map (\<lambda>row. ts_ord (fst row))
     [(\<lparr>year = 2024, month = 1, day = 1, tod = 0\<rparr>, 10::rat),
      (\<lparr>year = 2024, month = 2, day = 1, tod = 0\<rparr>, 20),
      (\<lparr>year = 2024, month = 2, day = 1, tod = 0\<rparr>, 25),
      (\<lparr>year = 2024, month = 3, day = 1, tod = 0\<rparr>, 30),
      (\<lparr>year = 2024, month = 4, day = 1, tod = 0\<rparr>, 40),
      (\<lparr>year = 2024, month = 5, day = 1, tod = 0\<rparr>, 50)])"
    by blast
  then show ?thesis by simp
qed

section \<open>Properties of the metrics and the export\<close>

text \<open>The sum of an int64 series is the sum of its values modulo \<open>2^64\<close>, read as signed.\<close>

lemma signed_take_bit_add_right:
  "signed_take_bit n (a + signed_take_bit n b) = signed_take_bit n (a + b)" for a b :: int
proof -
  have "signed_take_bit n (a + signed_take_bit n b)
        = signed_take_bit n (signed_take_bit n a + signed_take_bit n (signed_take_bit n b))"
    by (simp only: signed_take_bit_add)
  also have "\<dots> = signed_take_bit n (signed_take_bit n a + signed_take_bit n b)"
    by simp
  also have "\<dots> = signed_take_bit n (a + b)"
    by (rule signed_take_bit_add)
  finally show ?thesis .
qed

lemma sint_sum_list:
  "sint (sum_list ws :: 64 word) = signed_take_bit 63 (sum_list (map sint ws))"
proof (induction ws)
  case Nil
  then show ?case by simp
next
  case (Cons w ws)
  have "sint (w + sum_list ws) = signed_take_bit 63 (sint w + sint (sum_list ws))"
    by (simp add: sint_word_ariths)
  also have "\<dots> = signed_take_bit 63 (sint w + signed_take_bit 63 (sum_list (map sint ws)))"
    by (simp only: Cons.IH)
  also have "\<dots> = signed_take_bit 63 (sint w + sum_list (map sint ws))"
    by (rule signed_take_bit_add_right)
  finally show ?case by simp
qed

text \<open>
  C5, as the claim states it, fails on the code. The two history values are int64 and add
  up to \<open>2^63\<close>; \<open>.sum()\<close> stays in int64 and wraps, so the historical total is
  \<open>-2^63\<close>, not the sum of the values.
\<close>

theorem int64_total_wraps:
  "map_sum id historical_total
     (calculate_metrics exact_float64
        (Int64s [4611686018427387904, 4611686018427387904]) (Float64s [Fin 1]))
   = Inr (I64 (- 9223372036854775808))
   \<and> sint (- 9223372036854775808 :: 64 word) = - 9223372036854775808
   \<and> sum_list (map sint [4611686018427387904, 4611686018427387904 :: 64 word])
     = 9223372036854775808"
  by (simp add: calculate_metrics_def iloc_last_def series_sum_def)

text \<open>
  C5, amended. For non-empty history and forecast, \<open>calculate_metrics\<close> returns its
  quantities in numpy's arithmetic, not in exact arithmetic. The growth rate is the
  float64 result of the last forecast minus the last historical value, divided (true
  division) by the last historical value, times 100. The totals are \<open>.sum()\<close> and the
  averages \<open>.mean()\<close> of the two series, in float64 for float64 series; the total of an
  int64 series is the sum modulo \<open>2^64\<close>, which is the sum whenever that fits in int64.
  The number of periods is the forecast's length. When the last historical value is zero
  the growth rate is not finite (an infinity or \<open>nan\<close>): nothing guards the division,
  and in IEEE 754 a division by zero is never finite and no product of a non-finite value
  is.
\<close>

theorem calculate_metrics_machine_arithmetic:
  assumes "series_len hist \<noteq> 0" and "series_len fc \<noteq> 0"
  shows "\<exists>m lh lf.
           calculate_metrics fl hist fc = Inr m
           \<and> iloc_last hist = Inr lh \<and> iloc_last fc = Inr lf
           \<and> historical_avg m = series_mean fl hist
           \<and> forecast_avg m = series_mean fl fc
           \<and> growth_rate m
               = F64 (fmul fl (fdiv fl (to_float64 fl (np_sub fl lf lh)) (to_float64 fl lh))
                        (of_pyint fl 100))
           \<and> projected_total m = series_sum fl fc
           \<and> historical_total m = series_sum fl hist
           \<and> forecast_periods m = series_len fc
           \<and> (\<forall>hs fs. hist = Float64s hs \<and> fc = Float64s fs \<longrightarrow>
                 growth_rate m
                   = F64 (fmul fl (fdiv fl (fsub fl (last fs) (last hs)) (last hs))
                            (of_pyint fl 100))
                 \<and> historical_avg m = F64 (fmean fl hs) \<and> forecast_avg m = F64 (fmean fl fs)
                 \<and> projected_total m = F64 (fsum fl fs)
                 \<and> historical_total m = F64 (fsum fl hs))
           \<and> (\<forall>ws. hist = Int64s ws \<longrightarrow>
                 (\<exists>w. historical_total m = I64 w
                      \<and> sint w = signed_take_bit 63 (sum_list (map sint ws))
                      \<and> (- (2 ^ 63) \<le> sum_list (map sint ws)
                           \<and> sum_list (map sint ws) < 2 ^ 63 \<longrightarrow>
                         sint w = sum_list (map sint ws))))
           \<and> (scalar_is_zero fl lh \<and> is_zero fl (of_int64 fl 0)
                \<and> (\<forall>a z. is_zero fl z \<longrightarrow> \<not> isfinite fl (fdiv fl a z))
                \<and> (\<forall>x y. \<not> isfinite fl x \<longrightarrow> \<not> isfinite fl (fmul fl x y)) \<longrightarrow>
               (\<exists>g. growth_rate m = F64 g \<and> \<not> isfinite fl g))"
proof -
  from assms obtain lh lf where lh: "iloc_last hist = Inr lh" and lf: "iloc_last fc = Inr lf"
    by (auto simp: iloc_last_def series_len_def split: num_series.splits)
  define m where "m = \<lparr>historical_avg = series_mean fl hist,
                    forecast_avg = series_mean fl fc,
                    growth_rate = np_mul_pyint fl (np_truediv fl (np_sub fl lf lh) lh) 100,
                    projected_total = series_sum fl fc,
                    historical_total = series_sum fl hist,
                    forecast_periods = series_len fc\<rparr>"
  have cm: "calculate_metrics fl hist fc = Inr m"
    by (simp add: calculate_metrics_def lh lf m_def)
  have g: "growth_rate m
           = F64 (fmul fl (fdiv fl (to_float64 fl (np_sub fl lf lh)) (to_float64 fl lh))
                    (of_pyint fl 100))"
    by (simp add: m_def np_mul_pyint_def np_truediv_def)
  have fields: "historical_avg m = series_mean fl hist" "forecast_avg m = series_mean fl fc"
    "projected_total m = series_sum fl fc" "historical_total m = series_sum fl hist"
    "forecast_periods m = series_len fc"
    by (simp_all add: m_def)
  have floats: "growth_rate m
                   = F64 (fmul fl (fdiv fl (fsub fl (last fs) (last hs)) (last hs))
                            (of_pyint fl 100))
                 \<and> historical_avg m = F64 (fmean fl hs) \<and> forecast_avg m = F64 (fmean fl fs)
                 \<and> projected_total m = F64 (fsum fl fs)
                 \<and> historical_total m = F64 (fsum fl hs)"
    if "hist = Float64s hs \<and> fc = Float64s fs" for hs fs
    using that lh lf
    by (auto simp: g fields iloc_last_def np_sub_def to_float64_def series_mean_def
          series_sum_def split: if_splits)
  have ints: "\<exists>w. historical_total m = I64 w
                  \<and> sint w = signed_take_bit 63 (sum_list (map sint ws))
                  \<and> (- (2 ^ 63) \<le> sum_list (map sint ws)
                       \<and> sum_list (map sint ws) < 2 ^ 63 \<longrightarrow>
                     sint w = sum_list (map sint ws))"
    if "hist = Int64s ws" for ws
    using that
    by (simp add: fields series_sum_def sint_sum_list signed_take_bit_int_eq_self)
  have zero: "\<exists>g. growth_rate m = F64 g \<and> \<not> isfinite fl g"
    if z: "scalar_is_zero fl lh" and z0: "is_zero fl (of_int64 fl 0)"
      and d: "\<forall>a z. is_zero fl z \<longrightarrow> \<not> isfinite fl (fdiv fl a z)"
      and mu: "\<forall>x y. \<not> isfinite fl x \<longrightarrow> \<not> isfinite fl (fmul fl x y)"
  proof -
    from z z0 have "is_zero fl (to_float64 fl lh)"
      by (cases lh) (simp_all add: scalar_is_zero_def to_float64_def)
    with d have "\<not> isfinite fl (fdiv fl (to_float64 fl (np_sub fl lf lh)) (to_float64 fl lh))"
      by blast
    with mu show ?thesis
      unfolding g by blast
  qed
  from cm lh lf g fields floats ints zero show ?thesis
    by blast
qed

lemma exact_float64_zero_division:
  "is_zero exact_float64 z \<Longrightarrow> \<not> isfinite exact_float64 (fdiv exact_float64 a z)"
  by (cases a) (auto simp: exact_float64_def fval_div_def inf_of_sign_def fval_sign_def)

lemma exact_float64_nonfinite_product:
  "\<not> isfinite exact_float64 x \<Longrightarrow> \<not> isfinite exact_float64 (fmul exact_float64 x y)"
  by (cases x; cases y)
     (auto simp: exact_float64_def fval_mul_def inf_of_sign_def fval_sign_def)

theorem calculate_metrics_machine_arithmetic_witness:
  "calculate_metrics exact_float64 (Float64s [Fin 100, Fin 200]) (Float64s [Fin 220, Fin 250])
   = Inr \<lparr>historical_avg = F64 (Fin 150), forecast_avg = F64 (Fin 235),
           growth_rate = F64 (Fin 25), projected_total = F64 (Fin 470),
           historical_total = F64 (Fin 300), forecast_periods = 2\<rparr>
   \<and> calculate_metrics exact_float64 (Int64s [100, 0]) (Float64s [Fin 20])
     = Inr \<lparr>historical_avg = F64 (Fin 50), forecast_avg = F64 (Fin 20),
             growth_rate = F64 PosInf, projected_total = F64 (Fin 20),
             historical_total = I64 100, forecast_periods = 1\<rparr>
   \<and> scalar_is_zero exact_float64 (I64 0)
   \<and> \<not> isfinite exact_float64 PosInf"
proof -
  have e1: "calculate_metrics exact_float64 (Float64s [Fin 100, Fin 200]) (Float64s [Fin 220, Fin 250])
   = Inr \<lparr>historical_avg = F64 (Fin 150), forecast_avg = F64 (Fin 235),
           growth_rate = F64 (Fin 25), projected_total = F64 (Fin 470),
           historical_total = F64 (Fin 300), forecast_periods = 2\<rparr>"
    by (simp add: calculate_metrics_def iloc_last_def series_sum_def series_mean_def
          series_len_def np_mul_pyint_def np_truediv_def np_sub_def to_float64_def
          exact_float64_def fval_add_def fval_neg_def fval_mul_def fval_div_def fval_sum_def)
  have e2: "calculate_metrics exact_float64 (Int64s [100, 0]) (Float64s [Fin 20])
     = Inr \<lparr>historical_avg = F64 (Fin 50), forecast_avg = F64 (Fin 20),
             growth_rate = F64 PosInf, projected_total = F64 (Fin 20),
             historical_total = I64 100, forecast_periods = 1\<rparr>"
    by (simp add: calculate_metrics_def iloc_last_def series_sum_def series_mean_def
          series_len_def np_mul_pyint_def np_truediv_def np_sub_def to_float64_def
          exact_float64_def fval_add_def fval_neg_def fval_mul_def fval_div_def fval_sum_def
          inf_of_sign_def fval_sign_def)
  have n1: "series_len (Int64s [100, 0] :: fval num_series) \<noteq> 0"
    and n2: "series_len (Float64s [Fin 20]) \<noteq> 0"
    by (simp_all add: series_len_def)
  have z0: "is_zero exact_float64 (of_int64 exact_float64 0)"
    by (simp add: exact_float64_def)
  have "\<not> isfinite exact_float64 PosInf"
    using calculate_metrics_machine_arithmetic [OF n1 n2, of exact_float64]
  proof (elim exE conjE)
    fix m lh lf
    assume cm: "calculate_metrics exact_float64 (Int64s [100, 0]) (Float64s [Fin 20]) = Inr m"
      and lh: "iloc_last (Int64s [100, 0] :: fval num_series) = Inr lh"
      and zc: "scalar_is_zero exact_float64 lh \<and> is_zero exact_float64 (of_int64 exact_float64 0)
         \<and> (\<forall>a z. is_zero exact_float64 z \<longrightarrow>
                \<not> isfinite exact_float64 (fdiv exact_float64 a z))
         \<and> (\<forall>x y. \<not> isfinite exact_float64 x \<longrightarrow>
                \<not> isfinite exact_float64 (fmul exact_float64 x y)) \<longrightarrow>
         (\<exists>g. growth_rate m = F64 g \<and> \<not> isfinite exact_float64 g)"
    from lh have "scalar_is_zero exact_float64 lh"
      by (auto simp: iloc_last_def scalar_is_zero_def)
    with zc z0 exact_float64_zero_division exact_float64_nonfinite_product
    obtain g where g: "growth_rate m = F64 g" and nf: "\<not> isfinite exact_float64 g"
      by blast
    from cm e2 have "growth_rate m = F64 PosInf"
      by auto
    with g have "g = PosInf"
      by simp
    with nf show ?thesis
      by simp
  qed
  moreover have "scalar_is_zero exact_float64 (I64 0)"
    by (simp add: scalar_is_zero_def)
  ultimately show ?thesis
    using e1 e2 by simp
qed

text \<open>
  The export frame in the ordinary case: when the value column is called neither \<open>Date\<close>
  nor \<open>Type\<close> and the timestamps convert to themselves, the frame has the three columns
  \<open>Date\<close>, the value column and \<open>Type\<close>, with the history rows then the forecast rows.
\<close>

lemma combined_df_rows:
  assumes "value_col_name \<noteq> ''Date''" and "value_col_name \<noteq> ''Type''"
    and "to_datetime pd None (map (\<lambda>row. Ts (fst row)) (hist @ fc))
           = Inr (map (\<lambda>row. Some (fst row)) (hist @ fc))"
  shows "combined_df pd hist fc value_col_name
         = Inr [(''Date'', map (\<lambda>row. Str (strftime_dmy (fst row))) (hist @ fc)),
                (value_col_name, map (\<lambda>row. Num (snd row)) (hist @ fc)),
                (''Type'', replicate (length hist) (Str ''Historical'')
                             @ replicate (length fc) (Str ''Forecast''))]"
  using assms
  by (simp add: combined_df_def Let_def o_def)

text \<open>
  C8, evaluated on the code. The value column is called \<open>Type\<close>. In the dict literal the
  key \<open>'Type'\<close> then occurs twice and the later entry, the list of tags, replaces the
  values: the frame that is written has the two columns \<open>Date\<close> and \<open>Type\<close>, and the
  values 100 and 110 are in no column of the export.
\<close>

theorem create_download_csv_loses_values:
  "create_download_csv iso_pd to_csv
     [(\<lparr>year = 2024, month = 10, day = 1, tod = 0\<rparr>, 100)]
     [(\<lparr>year = 2024, month = 11, day = 1, tod = 0\<rparr>, 110)] ''Type''
   = Inr (to_csv [(''Date'', [Str ''01/10/2024'', Str ''01/11/2024'']),
                  (''Type'', [Str ''Historical'', Str ''Forecast''])])"
  by (simp add: create_download_csv_def combined_df_def iso_pd_def iso_cell_def notna_def
        strftime_dmy_def two_digits_def four_digits_def digit_def Let_def)

end
